theory Spec2Isabelle
  imports Complex_Main
begin

section \<open>Python values as the dashboard sees them\<close>

text \<open>
  The dashboard (\<^verbatim>\<open>app.py\<close>) reads JSON from the Prometheus HTTP API and handles it with
  Python's dynamic operations. A decoded JSON document is a value of \<open>json\<close>; Python's
  \<^verbatim>\<open>None\<close> is \<open>JNull\<close>, which is also what \<^verbatim>\<open>PrometheusClient.query\<close> returns when a
  query fails. A \<open>JDict\<close> lists the items of a Python dict in insertion order, keys distinct.
  Numbers are taken as reals: rounding, \<^verbatim>\<open>nan\<close>, \<^verbatim>\<open>inf\<close> and integers too large for a float
  are outside the model, and two
  values are equal for Python's \<^verbatim>\<open>==\<close> when they are equal here (that Python also equates
  \<^verbatim>\<open>True\<close> with 1 and \<^verbatim>\<open>False\<close> with 0 is left out).
\<close>

datatype json =
    JNull
  | JBool bool
  | JNum real
  | JStr string
  | JList "json list"
  | JDict "(string \<times> json) list"

text \<open>The exceptions the modelled operations raise.\<close>

datatype py_error =
    KeyError
  | TypeError
  | IndexError
  | ValueError
  | AttributeError
  | OverflowError
  | RequestError

text \<open>
  What the program leaves to the Python runtime: \<^verbatim>\<open>float(s)\<close> on a string (\<open>None\<close> where it
  raises \<^verbatim>\<open>ValueError\<close>), \<^verbatim>\<open>str(x)\<close> on a value that is not a string, and the range of
  epoch seconds \<^verbatim>\<open>datetime.fromtimestamp\<close> accepts.
\<close>

record runtime =
  float_of_str :: "string \<Rightarrow> real option"
  str_of_json :: "json \<Rightarrow> string"
  timestamp_ok :: "real \<Rightarrow> bool"

text \<open>Truthiness: \<^verbatim>\<open>not x\<close> is \<open>\<not> py_truthy x\<close>.\<close>

fun py_truthy :: "json \<Rightarrow> bool" where
  "py_truthy JNull = False"
| "py_truthy (JBool b) = b"
| "py_truthy (JNum r) = (r \<noteq> 0)"
| "py_truthy (JStr s) = (s \<noteq> [])"
| "py_truthy (JList xs) = (xs \<noteq> [])"
| "py_truthy (JDict kvs) = (kvs \<noteq> [])"

text \<open>\<^verbatim>\<open>k in s\<close> on two strings: \<open>k\<close> occurs in \<open>s\<close> as a contiguous block.\<close>

fun str_contains :: "string \<Rightarrow> string \<Rightarrow> bool" where
  "str_contains k [] = (k = [])"
| "str_contains k (c # cs) = (take (length k) (c # cs) = k \<or> str_contains k cs)"

text \<open>\<^verbatim>\<open>k in x\<close> for a string \<open>k\<close>: keys of a dict, elements of a list, substrings of a string;
  any other operand is not iterable.\<close>

fun py_in :: "string \<Rightarrow> json \<Rightarrow> py_error + bool" where
  "py_in k (JDict kvs) = Inr (k \<in> set (map fst kvs))"
| "py_in k (JList xs) = Inr (JStr k \<in> set xs)"
| "py_in k (JStr s) = Inr (str_contains k s)"
| "py_in k JNull = Inl TypeError"
| "py_in k (JBool b) = Inl TypeError"
| "py_in k (JNum r) = Inl TypeError"

text \<open>\<^verbatim>\<open>x[k]\<close> for a string key: only a dict has string keys.\<close>

fun py_getitem :: "json \<Rightarrow> string \<Rightarrow> py_error + json" where
  "py_getitem (JDict kvs) k = (case map_of kvs k of None \<Rightarrow> Inl KeyError | Some v \<Rightarrow> Inr v)"
| "py_getitem JNull k = Inl TypeError"
| "py_getitem (JBool b) k = Inl TypeError"
| "py_getitem (JNum r) k = Inl TypeError"
| "py_getitem (JStr s) k = Inl TypeError"
| "py_getitem (JList xs) k = Inl TypeError"

text \<open>\<^verbatim>\<open>x[i]\<close> for the indices 0 and 1: a list or a string is indexed, a dict decoded from
  JSON has no integer key.\<close>

fun py_index :: "json \<Rightarrow> nat \<Rightarrow> py_error + json" where
  "py_index (JList xs) i = (if i < length xs then Inr (xs ! i) else Inl IndexError)"
| "py_index (JStr s) i = (if i < length s then Inr (JStr [s ! i]) else Inl IndexError)"
| "py_index (JDict kvs) i = Inl KeyError"
| "py_index JNull i = Inl TypeError"
| "py_index (JBool b) i = Inl TypeError"
| "py_index (JNum r) i = Inl TypeError"

text \<open>\<^verbatim>\<open>for item in x\<close>: the elements of a list, the keys of a dict, the characters of a
  string.\<close>

fun py_iter :: "json \<Rightarrow> py_error + json list" where
  "py_iter (JList xs) = Inr xs"
| "py_iter (JDict kvs) = Inr (map (\<lambda>kv. JStr (fst kv)) kvs)"
| "py_iter (JStr s) = Inr (map (\<lambda>c. JStr [c]) s)"
| "py_iter JNull = Inl TypeError"
| "py_iter (JBool b) = Inl TypeError"
| "py_iter (JNum r) = Inl TypeError"

text \<open>\<^verbatim>\<open>d.get(k, default)\<close> on the items of a dict.\<close>

definition dict_get :: "(string \<times> json) list \<Rightarrow> string \<Rightarrow> json \<Rightarrow> json" where
  "dict_get kvs k dflt = (case map_of kvs k of None \<Rightarrow> dflt | Some v \<Rightarrow> v)"

text \<open>\<^verbatim>\<open>float(x)\<close>, \<^verbatim>\<open>str(x)\<close> and \<^verbatim>\<open>datetime.fromtimestamp(x)\<close>. A timestamp is kept as its
  epoch seconds.\<close>

fun py_float :: "runtime \<Rightarrow> json \<Rightarrow> py_error + real" where
  "py_float rt (JStr s) = (case float_of_str rt s of None \<Rightarrow> Inl ValueError | Some r \<Rightarrow> Inr r)"
| "py_float rt (JNum r) = Inr r"
| "py_float rt (JBool b) = Inr (if b then 1 else 0)"
| "py_float rt JNull = Inl TypeError"
| "py_float rt (JList xs) = Inl TypeError"
| "py_float rt (JDict kvs) = Inl TypeError"

fun py_str :: "runtime \<Rightarrow> json \<Rightarrow> string" where
  "py_str rt (JStr s) = s"
| "py_str rt j = str_of_json rt j"

fun fromtimestamp :: "runtime \<Rightarrow> json \<Rightarrow> py_error + real" where
  "fromtimestamp rt (JNum t) = (if timestamp_ok rt t then Inr t else Inl OverflowError)"
| "fromtimestamp rt (JBool b) = Inr (if b then 1 else 0)"
| "fromtimestamp rt JNull = Inl TypeError"
| "fromtimestamp rt (JStr s) = Inl TypeError"
| "fromtimestamp rt (JList xs) = Inl TypeError"
| "fromtimestamp rt (JDict kvs) = Inl TypeError"

section \<open>What the program reports and waits for\<close>

text \<open>
  The visible effects, in the order they happen: an HTTP request sent (with the query
  expression), a sleep (seconds), \<^verbatim>\<open>st.error\<close> after a failed query, \<^verbatim>\<open>st.warning\<close> for a
  skipped result item.
\<close>

datatype event =
    Request string
  | Sleep real
  | StError
  | StWarning py_error

section \<open>PrometheusClient\<close>

text \<open>
  \<^verbatim>\<open>PrometheusClient.__init__\<close> mounts an \<^verbatim>\<open>HTTPAdapter\<close> whose \<^verbatim>\<open>max_retries\<close> is
  \<^verbatim>\<open>Retry(total=3, backoff_factor=1, status_forcelist=[500, 502, 503, 504])\<close>.
\<close>

record retry =
  retry_total :: nat
  backoff_factor :: real
  status_forcelist :: "nat list"

definition prom_client :: retry where
  "prom_client = \<lparr>retry_total = 3, backoff_factor = 1, status_forcelist = [500, 502, 503, 504]\<rparr>"

text \<open>What one request attempt meets: no connection, or a response with its status code
  and its body as \<^verbatim>\<open>response.json()\<close> decodes it (\<open>None\<close> when the body is not JSON).\<close>

datatype attempt =
    ConnectionFailed
  | Responded nat "json option"

text \<open>
  The retry loop is not in \<^verbatim>\<open>app.py\<close>: it is urllib3's, driven by the \<^verbatim>\<open>Retry\<close> object above.
  The two definitions below follow urllib3 (\<^verbatim>\<open>Retry.get_backoff_time\<close>, \<^verbatim>\<open>Retry.increment\<close>,
  \<^verbatim>\<open>Retry.is_exhausted\<close> and the recursion of \<^verbatim>\<open>HTTPConnectionPool.urlopen\<close>, releases 1.26 and
  2.x): \<^verbatim>\<open>total\<close> counts the retries allowed after the first request; before a retry the
  pool sleeps \<^verbatim>\<open>backoff_factor * 2 ** (n - 1)\<close> seconds, capped at 120, where \<open>n\<close> is the number
  of failed attempts so far, and not at all while \<open>n \<le> 1\<close>; when a failure finds no retry
  left, \<^verbatim>\<open>MaxRetryError\<close> is raised, which \<^verbatim>\<open>requests\<close> hands on as an exception of its own.
  Redirects and the \<^verbatim>\<open>Retry-After\<close> header, which replaces the backoff when a response
  carries it, are left out: an attempt has a status and a body only.
\<close>

definition get_backoff_time :: "retry \<Rightarrow> nat \<Rightarrow> real" where
  "get_backoff_time r n = (if n \<le> 1 then 0 else min 120 (backoff_factor r * 2 ^ (n - 1)))"

definition sleep_backoff :: "retry \<Rightarrow> nat \<Rightarrow> event list" where
  "sleep_backoff r n = (if get_backoff_time r n \<le> 0 then [] else [Sleep (get_backoff_time r n)])"

text \<open>\<open>session_get r q server failed left\<close>: the request for \<open>q\<close> after \<open>failed\<close> failed
  attempts, with \<open>left\<close> retries left; \<open>server n\<close> is what attempt number \<open>n\<close> meets.\<close>

fun session_get ::
  "retry \<Rightarrow> string \<Rightarrow> (nat \<Rightarrow> attempt) \<Rightarrow> nat \<Rightarrow> nat \<Rightarrow> event list \<times> (py_error + nat \<times> json option)"
where
  "session_get r q server failed 0 =
    (case server failed of
       ConnectionFailed \<Rightarrow> ([Request q], Inl RequestError)
     | Responded status body \<Rightarrow>
         (if status \<in> set (status_forcelist r) then ([Request q], Inl RequestError)
          else ([Request q], Inr (status, body))))"
| "session_get r q server failed (Suc left) =
    (case server failed of
       ConnectionFailed \<Rightarrow>
         (Request q # sleep_backoff r (Suc failed) @ fst (session_get r q server (Suc failed) left),
          snd (session_get r q server (Suc failed) left))
     | Responded status body \<Rightarrow>
         (if status \<in> set (status_forcelist r)
          then (Request q # sleep_backoff r (Suc failed) @ fst (session_get r q server (Suc failed) left),
                snd (session_get r q server (Suc failed) left))
          else ([Request q], Inr (status, body))))"

text \<open>
  \<^verbatim>\<open>PrometheusClient.query\<close>: one \<^verbatim>\<open>session.get\<close>, \<^verbatim>\<open>raise_for_status\<close> (an error for a status
  from 400 to 599), \<^verbatim>\<open>response.json()\<close>. Any exception is caught, reported with
  \<^verbatim>\<open>st.error\<close>, and the result is \<^verbatim>\<open>None\<close>.
\<close>

definition query :: "retry \<Rightarrow> (string \<Rightarrow> nat \<Rightarrow> attempt) \<Rightarrow> string \<Rightarrow> event list \<times> json" where
  "query self backend q =
    (case session_get self q (backend q) 0 (retry_total self) of
       (evs, Inl e) \<Rightarrow> (evs @ [StError], JNull)
     | (evs, Inr (status, body)) \<Rightarrow>
         (if 400 \<le> status \<and> status < 600 then (evs @ [StError], JNull)
          else (case body of
                  None \<Rightarrow> (evs @ [StError], JNull)
                | Some j \<Rightarrow> (evs, j))))"

fun is_request :: "event \<Rightarrow> bool" where
  "is_request (Request q) = True"
| "is_request e = False"

fun is_sleep :: "event \<Rightarrow> bool" where
  "is_sleep (Sleep d) = True"
| "is_sleep e = False"

section \<open>process_metric\<close>

text \<open>One row of the data frame \<^verbatim>\<open>process_metric\<close> builds (the dict appended to
  \<^verbatim>\<open>records\<close>); the column \<^verbatim>\<open>value\<close> is \<open>sample_value\<close>.\<close>

record sample =
  timestamp :: real
  sample_value :: real
  metric :: "(string \<times> json) list"
  mode :: string
  device :: string

text \<open>
  The body of the \<^verbatim>\<open>try\<close> block for one item, in evaluation order: \<^verbatim>\<open>item.get('metric', {})\<close>
  needs a dict, then the timestamp, the value, and \<^verbatim>\<open>metric_info.get\<close>, which needs a dict
  again. \<open>Inl e\<close> is the exception the \<^verbatim>\<open>except\<close> clause catches.
\<close>

definition parse_item :: "runtime \<Rightarrow> json \<Rightarrow> py_error + sample" where
  "parse_item rt item =
    (case item of
       JDict kvs \<Rightarrow>
         (let metric_info = dict_get kvs ''metric'' (JDict []) in
          case py_getitem item ''value'' of
            Inl e \<Rightarrow> Inl e
          | Inr v \<Rightarrow>
            (case py_index v 0 of
               Inl e \<Rightarrow> Inl e
             | Inr v0 \<Rightarrow>
               (case fromtimestamp rt v0 of
                  Inl e \<Rightarrow> Inl e
                | Inr ts \<Rightarrow>
                  (case py_index v 1 of
                     Inl e \<Rightarrow> Inl e
                   | Inr v1 \<Rightarrow>
                     (case py_float rt v1 of
                        Inl e \<Rightarrow> Inl e
                      | Inr x \<Rightarrow>
                        (case metric_info of
                           JDict labels \<Rightarrow>
                             Inr \<lparr>timestamp = ts, sample_value = x, metric = labels,
                                  mode = py_str rt (dict_get labels ''mode'' (JStr ''unknown'')),
                                  device = py_str rt (dict_get labels ''device'' (JStr ''unknown''))\<rparr>
                         | _ \<Rightarrow> Inl AttributeError))))))
     | _ \<Rightarrow> Inl AttributeError)"

text \<open>The \<^verbatim>\<open>for\<close> loop: a record is appended for an item that parses, a warning is shown
  for one that raises, and the loop goes on either way.\<close>

fun process_items :: "runtime \<Rightarrow> json list \<Rightarrow> event list \<times> sample list" where
  "process_items rt [] = ([], [])"
| "process_items rt (item # items) =
    (case parse_item rt item of
       Inl e \<Rightarrow> (StWarning e # fst (process_items rt items), snd (process_items rt items))
     | Inr r \<Rightarrow> (fst (process_items rt items), r # snd (process_items rt items)))"

text \<open>
  \<^verbatim>\<open>process_metric\<close>. The guard is evaluated left to right and outside any \<^verbatim>\<open>try\<close>, so an
  exception in it, or in starting the iteration, leaves the function: \<open>Inl e\<close>. A data
  frame is the list of its rows; \<^verbatim>\<open>pd.DataFrame()\<close> is \<open>[]\<close>.
\<close>

definition process_metric :: "runtime \<Rightarrow> json \<Rightarrow> py_error + event list \<times> sample list" where
  "process_metric rt result =
    (if \<not> py_truthy result then Inr ([], [])
     else (case py_in ''data'' result of
       Inl e \<Rightarrow> Inl e
     | Inr has_data \<Rightarrow>
         (if \<not> has_data then Inr ([], [])
          else (case py_getitem result ''data'' of
            Inl e \<Rightarrow> Inl e
          | Inr d \<Rightarrow>
            (case py_getitem d ''result'' of
               Inl e \<Rightarrow> Inl e
             | Inr res \<Rightarrow>
                 (if \<not> py_truthy res then Inr ([], [])
                  else (case py_iter res of
                    Inl e \<Rightarrow> Inl e
                  | Inr items \<Rightarrow> Inr (process_items rt items))))))))"

section \<open>fetch_metrics\<close>

definition METRICS :: "(string \<times> string) list" where
  \<open>METRICS =
    [(''cpu_usage'', ''100 - (avg by(instance)(rate(node_cpu_seconds_total{mode="idle"}[1m])) * 100)''),
     (''memory_usage'', ''(node_memory_MemTotal_bytes - node_memory_MemFree_bytes) / node_memory_MemTotal_bytes * 100''),
     (''cpu_by_mode'', ''rate(node_cpu_seconds_total[1m]) * 100''),
     (''network_in'', ''sum by (device) (rate(node_network_receive_bytes_total{device!="lo"}[1m]))''),
     (''network_out'', ''sum by (device) (rate(node_network_transmit_bytes_total{device!="lo"}[1m]))''),
     (''network_errors'', ''sum by (device) (rate(node_network_receive_errs_total{device!="lo"}[1m]) + rate(node_network_transmit_errs_total{device!="lo"}[1m]))''),
     (''disk_reads'', ''sum by (device) (rate(node_disk_reads_completed_total[1m]))''),
     (''disk_writes'', ''sum by (device) (rate(node_disk_writes_completed_total[1m]))''),
     (''disk_io_time'', ''sum by (device) (rate(node_disk_io_time_seconds_total[1m]) * 100)''),
     (''disk_space'', ''(node_filesystem_size_bytes - node_filesystem_free_bytes) / node_filesystem_size_bytes * 100'')]\<close>

text \<open>
  The loop of \<^verbatim>\<open>fetch_metrics\<close> over the items of a catalog. \<^verbatim>\<open>results\<close> is the list of
  (name, data frame) in insertion order; the names of \<open>METRICS\<close> are distinct, so each
  assignment \<^verbatim>\<open>results[name] = ...\<close> adds an entry. An exception of \<^verbatim>\<open>process_metric\<close> is
  not caught here and leaves the function.
\<close>

fun fetch_loop ::
  "runtime \<Rightarrow> (string \<Rightarrow> nat \<Rightarrow> attempt) \<Rightarrow> (string \<times> string) list
    \<Rightarrow> py_error + event list \<times> (string \<times> sample list) list"
where
  "fetch_loop rt backend [] = Inr ([], [])"
| "fetch_loop rt backend ((name, q) # rest) =
    (case process_metric rt (snd (query prom_client backend q)) of
       Inl e \<Rightarrow> Inl e
     | Inr (warnings, df) \<Rightarrow>
         (case fetch_loop rt backend rest of
            Inl e \<Rightarrow> Inl e
          | Inr (evs, results) \<Rightarrow>
              Inr (fst (query prom_client backend q) @ warnings @ [Sleep (1 / 10)] @ evs,
                   (name, df) # results)))"

definition fetch_metrics ::
  "runtime \<Rightarrow> (string \<Rightarrow> nat \<Rightarrow> attempt) \<Rightarrow> py_error + event list \<times> (string \<times> sample list) list"
where
  "fetch_metrics rt backend = fetch_loop rt backend METRICS"

section \<open>The statistics of display_metrics\<close>

text \<open>
  What \<^verbatim>\<open>display_metrics\<close> computes before it draws; the charts and widgets themselves
  are not modelled. \<^verbatim>\<open>Series.unique()\<close> keeps the first occurrence of each value, in order.
\<close>

fun unique :: "'a list \<Rightarrow> 'a list" where
  "unique [] = []"
| "unique (x # xs) = x # unique (filter (\<lambda>y. y \<noteq> x) xs)"

text \<open>\<^verbatim>\<open>df['value'].mean()\<close> on a data frame with at least one row.\<close>

definition mean_value :: "sample list \<Rightarrow> real" where
  "mean_value rows = sum_list (map sample_value rows) / real (length rows)"

text \<open>
  Division of two floats. There is no finite quotient by zero: NumPy's \<^verbatim>\<open>float64\<close> gives
  \<^verbatim>\<open>inf\<close> or \<^verbatim>\<open>nan\<close>, a plain Python \<^verbatim>\<open>float\<close> raises \<^verbatim>\<open>ZeroDivisionError\<close>. \<open>None\<close> stands
  for both.
\<close>

definition float_div :: "real \<Rightarrow> real \<Rightarrow> real option" where
  "float_div x y = (if y = 0 then None else Some (x / y))"

text \<open>The delta shown beside a value:
  \<^verbatim>\<open>(current_value / device_data['value'].mean() - 1) * 100\<close>.\<close>

definition delta_pct :: "real \<Rightarrow> sample list \<Rightarrow> real option" where
  "delta_pct current_value rows =
    map_option (\<lambda>quotient. (quotient - 1) * 100) (float_div current_value (mean_value rows))"

text \<open>The gauges and the two headline numbers: \<^verbatim>\<open>data[name].iloc[-1]['value']\<close> when the
  frame is not empty.\<close>

definition kpi_current :: "sample list \<Rightarrow> real option" where
  "kpi_current df = (if df = [] then None else Some (sample_value (last df)))"

text \<open>
  The per-device columns (network in and out, disk reads, writes and utilisation): for
  each device of \<^verbatim>\<open>df['device'].unique()\<close> the rows of that device, their last value and
  its delta. The three disk columns skip a device whose name contains \<^verbatim>\<open>loop\<close>
  (\<open>skip_loop\<close>). An entry is (device, current value, delta).
\<close>

definition device_metrics :: "bool \<Rightarrow> sample list \<Rightarrow> (string \<times> real \<times> real option) list" where
  "device_metrics skip_loop df =
    concat (map (\<lambda>dev.
        if skip_loop \<and> str_contains ''loop'' dev then []
        else (let device_data = filter (\<lambda>r. device r = dev) df in
              if device_data = [] then []
              else [(dev, sample_value (last device_data),
                     delta_pct (sample_value (last device_data)) device_data)]))
      (unique (map device df)))"

text \<open>
  CPU by mode: \<^verbatim>\<open>df.groupby(['timestamp', 'mode'])['value'].mean()\<close>, as the mean of each
  group that has a row. The column \<^verbatim>\<open>mode\<close> is always there, \<^verbatim>\<open>process_metric\<close> fills it.
\<close>

definition cpu_by_mode :: "sample list \<Rightarrow> real \<times> string \<Rightarrow> real option" where
  "cpu_by_mode df key =
    (let rows = filter (\<lambda>r. (timestamp r, mode r) = key) df in
     if rows = [] then None else Some (mean_value rows))"

text \<open>
  Storage: the key of a row is \<^verbatim>\<open>x.get('mountpoint', '')\<close> on its labels.
  \<^verbatim>\<open>unique()\<close> hashes the keys, so a list or a dict among them raises \<^verbatim>\<open>TypeError\<close>.
\<close>

definition mountpoint_of :: "sample \<Rightarrow> json" where
  "mountpoint_of r = dict_get (metric r) ''mountpoint'' (JStr [])"

fun hashable :: "json \<Rightarrow> bool" where
  "hashable (JList xs) = False"
| "hashable (JDict kvs) = False"
| "hashable j = True"

definition pd_unique :: "json list \<Rightarrow> py_error + json list" where
  "pd_unique xs = (if list_all hashable xs then Inr (unique xs) else Inl TypeError)"

text \<open>
  The first loop over the mount points: the counters \<^verbatim>\<open>total_mounts\<close> and
  \<^verbatim>\<open>critical_mounts\<close>, and one bar (mount point, value, colour) per mount point shown.
\<close>

record storage =
  total_mounts :: nat
  critical_mounts :: nat
  bars :: "(json \<times> real \<times> string) list"

fun mount_loop :: "sample list \<Rightarrow> json list \<Rightarrow> storage \<Rightarrow> storage" where
  "mount_loop df_space [] st = st"
| "mount_loop df_space (mountpoint # rest) st =
    (if py_truthy mountpoint \<and> mountpoint \<noteq> JStr ''/boot'' then
       (let mount_data = filter (\<lambda>r. mountpoint_of r = mountpoint) df_space in
        if mount_data = [] then mount_loop df_space rest st
        else (let current_value = sample_value (last mount_data) in
              mount_loop df_space rest
                \<lparr>total_mounts = total_mounts st + 1,
                 critical_mounts = critical_mounts st + (if current_value > 85 then 1 else 0),
                 bars = bars st @
                   [(mountpoint, current_value,
                     if current_value < 85 then ''#4b6cb7'' else ''#ff4b5c'')]\<rparr>))
     else mount_loop df_space rest st)"

text \<open>The storage expander up to the summary numbers; \<open>None\<close> when \<^verbatim>\<open>df_space\<close> is empty
  and nothing is shown.\<close>

definition storage_summary :: "sample list \<Rightarrow> py_error + storage option" where
  "storage_summary df_space =
    (if df_space = [] then Inr None
     else (case pd_unique (map mountpoint_of df_space) of
             Inl e \<Rightarrow> Inl e
           | Inr mountpoints \<Rightarrow>
               Inr (Some (mount_loop df_space mountpoints
                            \<lparr>total_mounts = 0, critical_mounts = 0, bars = []\<rparr>))))"

text \<open>The third summary number: \<^verbatim>\<open>avg_usage = df_space['value'].mean()\<close>, shown against the
  target when \<^verbatim>\<open>avg_usage > 70\<close>.\<close>

definition over_target :: "sample list \<Rightarrow> bool" where
  "over_target df_space = (mean_value df_space > 70)"

text \<open>
  The second loop, the detailed grid: (mount point, value, delta, delta colour) for each
  mount point shown.
\<close>

definition mount_details :: "sample list \<Rightarrow> json list \<Rightarrow> (json \<times> real \<times> real option \<times> string) list" where
  "mount_details df_space mountpoints =
    concat (map (\<lambda>mountpoint.
        if py_truthy mountpoint \<and> mountpoint \<noteq> JStr ''/boot'' then
          (let mount_data = filter (\<lambda>r. mountpoint_of r = mountpoint) df_space in
           if mount_data = [] then []
           else [(mountpoint, sample_value (last mount_data),
                  delta_pct (sample_value (last mount_data)) mount_data,
                  if sample_value (last mount_data) > 85 then ''inverse'' else ''normal'')])
        else [])
      mountpoints)"

definition storage_details ::
  "sample list \<Rightarrow> py_error + (json \<times> real \<times> real option \<times> string) list"
where
  "storage_details df_space =
    (if df_space = [] then Inr []
     else (case pd_unique (map mountpoint_of df_space) of
             Inl e \<Rightarrow> Inl e
           | Inr mountpoints \<Rightarrow> Inr (mount_details df_space mountpoints)))"

text \<open>
  \<^verbatim>\<open>display_metrics\<close> on the data of one cycle; \<^verbatim>\<open>data.get(name, pd.DataFrame())\<close> is
  \<open>frame data name\<close>. It computes the headline values, the per-device columns and the
  storage expander, in the order of the source; the charts, the CPU-by-mode view (whose
  pivot and chart are inside a \<^verbatim>\<open>try\<close> of their own) and the widgets are not modelled.
  Nothing in the function
  catches the \<^verbatim>\<open>TypeError\<close> of \<^verbatim>\<open>unique()\<close> in the storage expander, so it leaves the
  function.
\<close>

definition frame :: "(string \<times> sample list) list \<Rightarrow> string \<Rightarrow> sample list" where
  "frame data name = (case map_of data name of None \<Rightarrow> [] | Some df \<Rightarrow> df)"

record dashboard =
  current_cpu :: "real option"
  current_mem :: "real option"
  current_net_in :: "real option"
  current_net_out :: "real option"
  network_in :: "(string \<times> real \<times> real option) list"
  network_out :: "(string \<times> real \<times> real option) list"
  disk_reads :: "(string \<times> real \<times> real option) list"
  disk_writes :: "(string \<times> real \<times> real option) list"
  disk_io_time :: "(string \<times> real \<times> real option) list"
  storage_numbers :: "storage option"
  storage_grid :: "(json \<times> real \<times> real option \<times> string) list"

definition display_metrics :: "(string \<times> sample list) list \<Rightarrow> py_error + dashboard" where
  "display_metrics data =
    (case storage_summary (frame data ''disk_space'') of
       Inl e \<Rightarrow> Inl e
     | Inr numbers \<Rightarrow>
         (case storage_details (frame data ''disk_space'') of
            Inl e \<Rightarrow> Inl e
          | Inr grid \<Rightarrow>
              Inr \<lparr>current_cpu = kpi_current (frame data ''cpu_usage''),
                   current_mem = kpi_current (frame data ''memory_usage''),
                   current_net_in = kpi_current (frame data ''network_in''),
                   current_net_out = kpi_current (frame data ''network_out''),
                   network_in = device_metrics False (frame data ''network_in''),
                   network_out = device_metrics False (frame data ''network_out''),
                   disk_reads = device_metrics True (frame data ''disk_reads''),
                   disk_writes = device_metrics True (frame data ''disk_writes''),
                   disk_io_time = device_metrics True (frame data ''disk_io_time''),
                   storage_numbers = numbers,
                   storage_grid = grid\<rparr>))"

section \<open>The refresh loop of main\<close>

text \<open>
  \<^verbatim>\<open>while True\<close> in \<^verbatim>\<open>main\<close>, observed for a number of iterations: \<open>main_loop rt backends
  auto_refresh refresh_rate i n\<close> runs iterations \<open>i, ..., i + n - 1\<close>, the backend of
  iteration \<open>k\<close> being \<open>backends k\<close>. The two settings are read from the widgets once,
  before the loop. Each iteration calls \<^verbatim>\<open>fetch_metrics\<close> and \<^verbatim>\<open>display_metrics\<close>, neither
  inside a \<^verbatim>\<open>try\<close>, and sleeps. The result lists what happened and the data of each
  iteration; an exception ends the loop.
\<close>

fun main_loop ::
  "runtime \<Rightarrow> (nat \<Rightarrow> string \<Rightarrow> nat \<Rightarrow> attempt) \<Rightarrow> bool \<Rightarrow> real \<Rightarrow> nat \<Rightarrow> nat
    \<Rightarrow> py_error + event list \<times> (string \<times> sample list) list list"
where
  "main_loop rt backends auto_refresh refresh_rate i 0 = Inr ([], [])"
| "main_loop rt backends auto_refresh refresh_rate i (Suc n) =
    (case fetch_metrics rt (backends i) of
       Inl e \<Rightarrow> Inl e
     | Inr (evs, data) \<Rightarrow>
         (case display_metrics data of
            Inl e \<Rightarrow> Inl e
          | Inr drawn \<Rightarrow>
              (case main_loop rt backends auto_refresh refresh_rate (Suc i) n of
                 Inl e \<Rightarrow> Inl e
               | Inr (evs', shown) \<Rightarrow>
                   Inr (evs @ [Sleep (if auto_refresh then refresh_rate else 1)] @ evs',
                        data # shown))))"

section \<open>The specification's notions\<close>

text \<open>
  The specification's \<^verbatim>\<open>latest\<close>: the value of the record with the greatest timestamp of a
  group, the last seen among equals. \<open>latest_by_timestamp\<close> follows those words, not
  the code: it scans the group and keeps a record unless a later one is at least as
  recent.
\<close>

fun newest :: "sample \<Rightarrow> sample list \<Rightarrow> sample" where
  "newest best [] = best"
| "newest best (r # rs) = newest (if timestamp best \<le> timestamp r then r else best) rs"

definition latest_by_timestamp :: "sample list \<Rightarrow> real option" where
  "latest_by_timestamp rows =
    (case rows of [] \<Rightarrow> None | r # rs \<Rightarrow> Some (sample_value (newest r rs)))"

text \<open>
  The shape of a result item the Prometheus API documents, \<^verbatim>\<open>{metric: {...}, value:
  [timestamp, "value"]}\<close>: a number in range and a string that reads as a number; the labels
  may be left out.
\<close>

fun well_formed_value :: "runtime \<Rightarrow> json \<Rightarrow> bool" where
  "well_formed_value rt (JList [JNum t, JStr s]) = (timestamp_ok rt t \<and> float_of_str rt s \<noteq> None)"
| "well_formed_value rt j = False"

fun well_formed_labels :: "json option \<Rightarrow> bool" where
  "well_formed_labels None = True"
| "well_formed_labels (Some (JDict labels)) = True"
| "well_formed_labels (Some j) = False"

fun well_formed_item :: "runtime \<Rightarrow> json \<Rightarrow> bool" where
  "well_formed_item rt (JDict kvs) =
    (case map_of kvs ''value'' of
       None \<Rightarrow> False
     | Some v \<Rightarrow> well_formed_value rt v \<and> well_formed_labels (map_of kvs ''metric''))"
| "well_formed_item rt j = False"

text \<open>
  The specification's malformed item: the value is missing or does not read as a number,
  or the timestamp is absent.
\<close>

fun malformed_value :: "runtime \<Rightarrow> json \<Rightarrow> bool" where
  "malformed_value rt (JList []) = True"
| "malformed_value rt (JList [t]) = True"
| "malformed_value rt (JList (t # v # others)) = (case py_float rt v of Inl e \<Rightarrow> True | Inr x \<Rightarrow> False)"
| "malformed_value rt j = False"

fun malformed_item :: "runtime \<Rightarrow> json \<Rightarrow> bool" where
  "malformed_item rt (JDict kvs) =
    (case map_of kvs ''value'' of
       None \<Rightarrow> True
     | Some v \<Rightarrow> malformed_value rt v)"
| "malformed_item rt j = False"

section \<open>Auxiliary definitions\<close>

text \<open>The bars the first storage loop adds for a list of mount points, written without
  the counters; \<open>mount_loop\<close> is compared with it below.\<close>

definition mount_bars :: "sample list \<Rightarrow> json list \<Rightarrow> (json \<times> real \<times> string) list" where
  "mount_bars df_space mountpoints =
    concat (map (\<lambda>mountpoint.
        if py_truthy mountpoint \<and> mountpoint \<noteq> JStr ''/boot''
           \<and> filter (\<lambda>r. mountpoint_of r = mountpoint) df_space \<noteq> []
        then [(mountpoint, sample_value (last (filter (\<lambda>r. mountpoint_of r = mountpoint) df_space)),
               if sample_value (last (filter (\<lambda>r. mountpoint_of r = mountpoint) df_space)) < 85
               then ''#4b6cb7'' else ''#ff4b5c'')]
        else [])
      mountpoints)"

text \<open>A runtime for concrete runs: only the two strings read as numbers, \<^verbatim>\<open>str\<close> of
  a value that is not a string shown as \<^verbatim>\<open>?\<close>, every timestamp in range.\<close>

definition rt0 :: runtime where
  "rt0 = \<lparr>float_of_str = (\<lambda>s. if s = ''42.5'' then Some 42.5 else if s = ''0'' then Some 0 else None),
          str_of_json = (\<lambda>j. ''?''),
          timestamp_ok = (\<lambda>t. True)\<rparr>"

section \<open>Facts about the helpers\<close>

lemma set_unique: "set (unique xs) = set xs"
proof (induction xs rule: unique.induct)
  case 1
  then show ?case by simp
next
  case (2 x xs)
  then show ?case by auto
qed

lemma process_items_eq:
  "process_items rt items =
     (concat (map (\<lambda>item. case parse_item rt item of Inl e \<Rightarrow> [StWarning e] | Inr r \<Rightarrow> []) items),
      concat (map (\<lambda>item. case parse_item rt item of Inl e \<Rightarrow> [] | Inr r \<Rightarrow> [r]) items))"
  by (induction items) (auto split: sum.splits)


lemma process_metric_no_data:
  assumes "map_of kvs ''data'' = None"
  shows "process_metric rt (JDict kvs) = Inr ([], [])"
proof -
  have "''data'' \<notin> fst ` set kvs" using assms by (simp add: map_of_eq_None_iff)
  then show ?thesis by (simp add: process_metric_def)
qed

lemma process_metric_result_list:
  assumes "map_of kvs ''data'' = Some (JDict dkvs)"
    and "map_of dkvs ''result'' = Some (JList items)"
  shows "process_metric rt (JDict kvs) = Inr (process_items rt items)"
proof -
  have k: "kvs \<noteq> []" using assms(1) by auto
  have m: "''data'' \<in> fst ` set kvs"
    using assms(1) by (metis map_of_eq_None_iff option.distinct(1))
  show ?thesis
    using k m assms by (cases "items = []") (simp_all add: process_metric_def)
qed

lemma parse_item_fields:
  assumes "parse_item rt item = Inr r"
  shows "device r = py_str rt (dict_get (metric r) ''device'' (JStr ''unknown''))
       \<and> mode r = py_str rt (dict_get (metric r) ''mode'' (JStr ''unknown''))"
  using assms
  by (auto simp: parse_item_def Let_def split: json.splits sum.splits)

lemma process_metric_rows:
  assumes "process_metric rt result = Inr (evs, df)" and "r \<in> set df"
  shows "\<exists>item. parse_item rt item = Inr r"
proof -
  have "df = [] \<or> (\<exists>items. df = snd (process_items rt items))"
    using assms(1)
    by (auto simp: process_metric_def split: if_splits sum.splits) (metis snd_conv)
  then obtain items where "df = snd (process_items rt items)" using assms(2) by auto
  then have "r \<in> set (concat (map (\<lambda>item. case parse_item rt item of Inl e \<Rightarrow> [] | Inr r \<Rightarrow> [r]) items))"
    using assms(2) by (simp add: process_items_eq)
  then show ?thesis by (auto split: sum.splits)
qed

lemma well_formed_parses:
  assumes "well_formed_item rt item"
  shows "\<exists>r. parse_item rt item = Inr r"
proof -
  obtain kvs v where item: "item = JDict kvs" and v: "map_of kvs ''value'' = Some v"
    and wv: "well_formed_value rt v" and wl: "well_formed_labels (map_of kvs ''metric'')"
    using assms by (cases item) (auto split: option.splits)
  obtain t s x where vs: "v = JList [JNum t, JStr s]" and t: "timestamp_ok rt t"
    and x: "float_of_str rt s = Some x"
    using wv by (auto elim!: well_formed_value.elims)
  have "\<exists>labels. dict_get kvs ''metric'' (JDict []) = JDict labels"
    using wl by (auto simp: dict_get_def elim!: well_formed_labels.elims)
  then obtain labels where l: "dict_get kvs ''metric'' (JDict []) = JDict labels" by blast
  show ?thesis
    by (simp add: parse_item_def item v vs t x l)
qed

lemma malformed_raises:
  assumes "malformed_item rt item"
  shows "\<exists>e. parse_item rt item = Inl e"
proof -
  obtain kvs where item: "item = JDict kvs"
    using assms by (cases item) auto
  show ?thesis
  proof (cases "map_of kvs ''value''")
    case None
    then show ?thesis by (simp add: parse_item_def item)
  next
    case (Some v)
    then have mv: "malformed_value rt v" using assms item by simp
    show ?thesis
    proof (cases v)
      case (JList xs)
      show ?thesis
      proof (cases xs)
        case Nil
        then show ?thesis using Some JList by (simp add: parse_item_def item)
      next
        case (Cons t ys)
        show ?thesis
        proof (cases ys)
          case Nil
          then show ?thesis using Some JList Cons
            by (simp add: parse_item_def item split: sum.splits)
        next
          case (Cons w others)
          then have "\<exists>e. py_float rt w = Inl e"
            using mv JList \<open>xs = t # ys\<close> by (auto split: sum.splits)
          then show ?thesis using Some JList Cons \<open>xs = t # ys\<close>
            by (auto simp: parse_item_def item split: sum.splits)
        qed
      qed
    qed (use mv in auto)
  qed
qed

lemma session_get_503:
  assumes "\<forall>n. \<exists>body. server n = Responded 503 body"
  shows "session_get prom_client q server 0 3 =
    ([Request q, Request q, Sleep 2, Request q, Sleep 4, Request q], Inl RequestError)"
proof -
  obtain b0 where b0: "server 0 = Responded 503 b0" using assms by blast
  obtain b1 where b1: "server (Suc 0) = Responded 503 b1" using assms by blast
  obtain b2 where b2: "server (Suc (Suc 0)) = Responded 503 b2" using assms by blast
  obtain b3 where b3: "server (Suc (Suc (Suc 0))) = Responded 503 b3" using assms by blast
  show ?thesis
    by (simp add: b0 b1 b2 b3 prom_client_def eval_nat_numeral get_backoff_time_def
        sleep_backoff_def)
qed

lemma query_connection_failed:
  "query prom_client (\<lambda>q n. ConnectionFailed) q =
      ([Request q, Request q, Sleep 2, Request q, Sleep 4, Request q, StError], JNull)"
  by (simp add: query_def prom_client_def eval_nat_numeral get_backoff_time_def sleep_backoff_def)

lemma length_METRICS: "length METRICS = 10"
  by (simp add: METRICS_def)


lemma device_metrics_entry:
  assumes "(dev, current_value, delta) \<in> set (device_metrics skip_loop df)"
  shows "filter (\<lambda>r. device r = dev) df \<noteq> []
    \<and> current_value = sample_value (last (filter (\<lambda>r. device r = dev) df))
    \<and> delta = delta_pct current_value (filter (\<lambda>r. device r = dev) df)
    \<and> \<not> (skip_loop \<and> str_contains ''loop'' dev)"
  using assms
  by (auto simp: device_metrics_def Let_def split: if_splits)

lemma device_metrics_has_group:
  assumes "r \<in> set df" and "\<not> (skip_loop \<and> str_contains ''loop'' (device r))"
  shows "(device r, sample_value (last (filter (\<lambda>x. device x = device r) df)),
          delta_pct (sample_value (last (filter (\<lambda>x. device x = device r) df)))
                    (filter (\<lambda>x. device x = device r) df))
         \<in> set (device_metrics skip_loop df)"
proof -
  have ne: "filter (\<lambda>x. device x = device r) df \<noteq> []"
    using assms(1) by (auto simp: filter_empty_conv)
  have "device r \<in> set (unique (map device df))"
    using assms(1) by (simp add: set_unique)
  then show ?thesis
    using ne assms(2) unfolding device_metrics_def Let_def
    by (auto simp: set_concat intro!: bexI[where x="device r"])
qed

lemma mount_details_entry:
  assumes "(mp, current_value, delta, colour) \<in> set (mount_details df mps)"
  shows "filter (\<lambda>r. mountpoint_of r = mp) df \<noteq> []
    \<and> current_value = sample_value (last (filter (\<lambda>r. mountpoint_of r = mp) df))
    \<and> delta = delta_pct current_value (filter (\<lambda>r. mountpoint_of r = mp) df)
    \<and> colour = (if current_value > 85 then ''inverse'' else ''normal'')
    \<and> py_truthy mp \<and> mp \<noteq> JStr ''/boot''"
  using assms
  by (auto simp: mount_details_def Let_def split: if_splits)

lemma delta_pct_cases:
  "delta_pct current_value rows =
     (if mean_value rows = 0 then None else Some ((current_value / mean_value rows - 1) * 100))"
  by (simp add: delta_pct_def float_div_def)

lemma mount_bars_entry:
  assumes "(mp, cur, colour) \<in> set (mount_bars df mps)"
  shows "py_truthy mp \<and> mp \<noteq> JStr ''/boot''
    \<and> filter (\<lambda>r. mountpoint_of r = mp) df \<noteq> []
    \<and> cur = sample_value (last (filter (\<lambda>r. mountpoint_of r = mp) df))
    \<and> colour = (if cur < 85 then ''#4b6cb7'' else ''#ff4b5c'')"
  using assms by (auto simp: mount_bars_def split: if_splits)

lemma mount_loop_eq:
  "mount_loop df mps st =
     \<lparr>total_mounts = total_mounts st + length (mount_bars df mps),
      critical_mounts = critical_mounts st
        + length (filter (\<lambda>(mp, cur, colour). cur > 85) (mount_bars df mps)),
      bars = bars st @ mount_bars df mps\<rparr>"
proof (induction mps arbitrary: st)
  case Nil
  then show ?case by (simp add: mount_bars_def)
next
  case (Cons mp mps)
  have split: "mount_bars df (mp # mps) = mount_bars df [mp] @ mount_bars df mps"
    by (simp add: mount_bars_def)
  show ?case
    by (simp add: Cons.IH split Let_def) (simp add: mount_bars_def)
qed

lemma storage_summary_bars:
  assumes "storage_summary df = Inr (Some st)"
  shows "\<exists>mps. st = \<lparr>total_mounts = length (mount_bars df mps),
      critical_mounts = length (filter (\<lambda>(mp, cur, colour). cur > 85) (mount_bars df mps)),
      bars = mount_bars df mps\<rparr>"
  using assms
  by (auto simp: storage_summary_def mount_loop_eq split: if_splits sum.splits)

lemma mount_bars_keys:
  assumes "set mps \<subseteq> mountpoint_of ` set df"
  shows "map fst (mount_bars df mps)
       = filter (\<lambda>mp. py_truthy mp \<and> mp \<noteq> JStr ''/boot'') mps"
  using assms
proof (induction mps)
  case Nil
  then show ?case by (simp add: mount_bars_def)
next
  case (Cons mp mps)
  have split: "mount_bars df (mp # mps) = mount_bars df [mp] @ mount_bars df mps"
    by (simp add: mount_bars_def)
  have "mp \<in> mountpoint_of ` set df" using Cons.prems by simp
  then have ne: "filter (\<lambda>r. mountpoint_of r = mp) df \<noteq> []"
    by (auto simp: filter_empty_conv)
  have one: "map fst (mount_bars df [mp])
       = (if py_truthy mp \<and> mp \<noteq> JStr ''/boot'' then [mp] else [])"
    using ne by (simp add: mount_bars_def)
  have "map fst (mount_bars df mps)
       = filter (\<lambda>mp. py_truthy mp \<and> mp \<noteq> JStr ''/boot'') mps"
    using Cons.IH Cons.prems by simp
  then show ?case unfolding split using one by simp
qed

lemma storage_summary_eq:
  assumes "storage_summary df = Inr (Some st)"
  shows "st = \<lparr>total_mounts = length (mount_bars df (unique (map mountpoint_of df))),
      critical_mounts = length (filter (\<lambda>(mp, cur, colour). cur > 85)
                                 (mount_bars df (unique (map mountpoint_of df)))),
      bars = mount_bars df (unique (map mountpoint_of df))\<rparr>"
  using assms
  by (auto simp: storage_summary_def pd_unique_def mount_loop_eq split: if_splits)

lemma frame_all_empty: "frame (map (\<lambda>(name, q). (name, [])) ms) name = []"
  by (induction ms) (auto simp: frame_def)

lemma display_all_empty:
  "\<exists>drawn. display_metrics (map (\<lambda>(name, q). (name, [])) ms) = Inr drawn"
  by (simp add: display_metrics_def frame_all_empty storage_summary_def storage_details_def)


lemma newest_last:
  assumes "\<forall>r \<in> set (best # rs). timestamp r \<le> timestamp (last (best # rs))"
  shows "newest best rs = last (best # rs)"
  using assms
proof (induction rs arbitrary: best)
  case Nil
  then show ?case by simp
next
  case (Cons r rs)
  show ?case
  proof (cases "timestamp best \<le> timestamp r")
    case True
    have "\<forall>x \<in> set (r # rs). timestamp x \<le> timestamp (last (r # rs))"
      using Cons.prems by simp
    then have "newest r rs = last (r # rs)" by (rule Cons.IH)
    then show ?thesis using True by simp
  next
    case False
    then have ne: "rs \<noteq> []" using Cons.prems by auto
    then have "\<forall>x \<in> set (best # rs). timestamp x \<le> timestamp (last (best # rs))"
      using Cons.prems by simp
    then have "newest best rs = last (best # rs)" by (rule Cons.IH)
    then show ?thesis using False ne by simp
  qed
qed

lemma latest_by_timestamp_last:
  assumes "rows \<noteq> []" and "\<forall>r \<in> set rows. timestamp r \<le> timestamp (last rows)"
  shows "latest_by_timestamp rows = Some (sample_value (last rows))"
proof -
  obtain r rs where rows: "rows = r # rs" using assms(1) by (cases rows) auto
  have "newest r rs = last (r # rs)" using assms(2) unfolding rows by (rule newest_last)
  then show ?thesis by (simp add: latest_by_timestamp_def rows)
qed


lemma fetch_loop_keys:
  assumes "fetch_loop rt be ms = Inr (evs, results)"
  shows "map fst results = map fst ms"
  using assms
proof (induction ms arbitrary: evs results)
  case Nil
  then show ?case by simp
next
  case (Cons m ms)
  obtain name q where m: "m = (name, q)" by (cases m) auto
  show ?case
    using Cons.prems Cons.IH unfolding m
    by (auto split: sum.splits prod.splits)
qed

lemma fetch_loop_all_failed:
  "\<exists>evs. fetch_loop rt (\<lambda>q n. ConnectionFailed) ms = Inr (evs, map (\<lambda>(name, q). (name, [])) ms)
     \<and> length (filter is_request evs) = 4 * length ms
     \<and> filter (\<lambda>e. e = Sleep 1) evs = []"
  by (induction ms) (auto simp: query_connection_failed process_metric_def)



section \<open>The claims\<close>

subsection \<open>C1: a backend that always answers 503\<close>

text \<open>
  Claim C1, as amended. When the backend answers HTTP 503 (without a \<^verbatim>\<open>Retry-After\<close>
  header) to every attempt of a query, \<^verbatim>\<open>PrometheusClient.query\<close> sends four requests, the first and the three retries that
  \<^verbatim>\<open>total=3\<close> allows; the first retry follows at once, the second after 2 seconds and the
  third after 4 seconds, so 6 seconds of backoff pass before the failure is reported;
  nothing is slept after the last attempt; the failure is reported with \<^verbatim>\<open>st.error\<close> and the
  result is \<^verbatim>\<open>None\<close>, the program having no error classes of its own.
\<close>

theorem query_503_four_attempts:
  assumes "\<forall>n. \<exists>body. backend q n = Responded 503 body"
  shows "query prom_client backend q =
     ([Request q, Request q, Sleep 2, Request q, Sleep 4, Request q, StError], JNull)"
proof -
  have "retry_total prom_client = 3" by (simp add: prom_client_def)
  then show ?thesis using session_get_503[of "backend q" q, OF assms]
    by (simp add: query_def)
qed

text \<open>The theorem at a backend that answers 503 with a text body.\<close>

theorem query_503_four_attempts_witness:
  "query prom_client (\<lambda>q n. Responded 503 (Some (JStr ''Service Unavailable''))) ''up'' =
     ([Request ''up'', Request ''up'', Sleep 2, Request ''up'', Sleep 4, Request ''up'', StError],
      JNull)"
  using query_503_four_attempts[of "\<lambda>q n. Responded 503 (Some (JStr ''Service Unavailable''))" "''up''"]
  by simp

text \<open>Against the claim as stated (three attempts, delays of 1 and 2 seconds): the query
  \<^verbatim>\<open>up\<close> against a backend that answers 503 with an empty body.\<close>

theorem query_503_not_three_attempts:
  "length (filter is_request (fst (query prom_client (\<lambda>q n. Responded 503 None) ''up''))) = 4
   \<and> filter is_sleep (fst (query prom_client (\<lambda>q n. Responded 503 None) ''up'')) = [Sleep 2, Sleep 4]
   \<and> snd (query prom_client (\<lambda>q n. Responded 503 None) ''up'') = JNull"
  by (simp add: query_def prom_client_def eval_nat_numeral get_backoff_time_def sleep_backoff_def)

subsection \<open>C2: responses without the result collection\<close>

text \<open>
  Claim C2 says that \<^verbatim>\<open>process_metric\<close> returns an empty frame and raises nothing for every
  response that lacks the result collection. The code does so for \<^verbatim>\<open>None\<close>, for a response
  without \<^verbatim>\<open>data\<close> and for an empty collection (\<open>process_metric_None\<close>,
  \<open>process_metric_no_data\<close>, \<open>process_metric_result_list\<close>), but its guard reads
  \<^verbatim>\<open>result['data']['result']\<close> outside the \<^verbatim>\<open>try\<close>: a response whose \<^verbatim>\<open>data\<close> has no
  \<^verbatim>\<open>result\<close> raises \<^verbatim>\<open>KeyError\<close>.
\<close>

theorem process_metric_missing_result_raises:
  "process_metric rt (JDict [(''status'', JStr ''success''), (''data'', JDict [])]) = Inl KeyError"
  by (simp add: process_metric_def)

subsection \<open>C3: malformed items are skipped\<close>

text \<open>
  Claim C3. For a response whose result collection is a list, \<^verbatim>\<open>process_metric\<close> returns
  (it raises nothing); its rows are the records of the items that parse, in order, and its
  warnings are one per item that does not, in order, whatever the other items are. A
  well-formed item has its record among the rows, and a malformed one (value missing or
  not a number, timestamp absent) is skipped with its warning.
\<close>

theorem process_metric_skips_malformed_items:
  assumes "map_of kvs ''data'' = Some (JDict dkvs)"
    and "map_of dkvs ''result'' = Some (JList items)"
  shows "\<exists>evs df. process_metric rt (JDict kvs) = Inr (evs, df)
     \<and> df = concat (map (\<lambda>item. case parse_item rt item of Inl e \<Rightarrow> [] | Inr r \<Rightarrow> [r]) items)
     \<and> evs = concat (map (\<lambda>item. case parse_item rt item of Inl e \<Rightarrow> [StWarning e] | Inr r \<Rightarrow> []) items)
     \<and> (\<forall>item \<in> set items. well_formed_item rt item \<longrightarrow> (\<exists>r \<in> set df. parse_item rt item = Inr r))
     \<and> (\<forall>item \<in> set items. malformed_item rt item \<longrightarrow>
           (\<exists>e. parse_item rt item = Inl e \<and> StWarning e \<in> set evs))"
proof -
  let ?df = "concat (map (\<lambda>item. case parse_item rt item of Inl e \<Rightarrow> [] | Inr r \<Rightarrow> [r]) items)"
  let ?evs = "concat (map (\<lambda>item. case parse_item rt item of Inl e \<Rightarrow> [StWarning e] | Inr r \<Rightarrow> []) items)"
  have a: "process_metric rt (JDict kvs) = Inr (?evs, ?df)"
    using process_metric_result_list[OF assms] by (simp add: process_items_eq)
  have b: "\<exists>r \<in> set ?df. parse_item rt item = Inr r"
    if i: "item \<in> set items" and w: "well_formed_item rt item" for item
  proof -
    obtain r where r: "parse_item rt item = Inr r" using well_formed_parses[OF w] by blast
    then have "r \<in> set ?df" using i by force
    then show ?thesis using r by blast
  qed
  have c: "\<exists>e. parse_item rt item = Inl e \<and> StWarning e \<in> set ?evs"
    if i: "item \<in> set items" and w: "malformed_item rt item" for item
  proof -
    obtain e where e: "parse_item rt item = Inl e" using malformed_raises[OF w] by blast
    then have "StWarning e \<in> set ?evs" using i by force
    then show ?thesis using e by blast
  qed
  show ?thesis using a b c by blast
qed

text \<open>The theorem on a response of three items, the second with a value that is not a
  number: one warning, two rows.\<close>

theorem process_metric_skips_malformed_items_witness:
  "process_metric rt0
     (JDict [(''status'', JStr ''success''),
             (''data'', JDict [(''resultType'', JStr ''vector''),
                (''result'', JList
                   [JDict [(''metric'', JDict [(''device'', JStr ''eth0'')]),
                           (''value'', JList [JNum 1000, JStr ''42.5''])],
                    JDict [(''metric'', JDict [(''device'', JStr ''eth1'')]),
                           (''value'', JList [JNum 1000, JStr ''n/a''])],
                    JDict [(''metric'', JDict []),
                           (''value'', JList [JNum 1000, JStr ''0''])]])])])
   = Inr ([StWarning ValueError],
          [\<lparr>timestamp = 1000, sample_value = 42.5, metric = [(''device'', JStr ''eth0'')],
            mode = ''unknown'', device = ''eth0''\<rparr>,
           \<lparr>timestamp = 1000, sample_value = 0, metric = [],
            mode = ''unknown'', device = ''unknown''\<rparr>])"
  using process_metric_skips_malformed_items
    [of "[(''status'', JStr ''success''),
          (''data'', JDict [(''resultType'', JStr ''vector''),
                (''result'', JList
                   [JDict [(''metric'', JDict [(''device'', JStr ''eth0'')]),
                           (''value'', JList [JNum 1000, JStr ''42.5''])],
                    JDict [(''metric'', JDict [(''device'', JStr ''eth1'')]),
                           (''value'', JList [JNum 1000, JStr ''n/a''])],
                    JDict [(''metric'', JDict []),
                           (''value'', JList [JNum 1000, JStr ''0''])]])])]"
        "[(''resultType'', JStr ''vector''),
                (''result'', JList
                   [JDict [(''metric'', JDict [(''device'', JStr ''eth0'')]),
                           (''value'', JList [JNum 1000, JStr ''42.5''])],
                    JDict [(''metric'', JDict [(''device'', JStr ''eth1'')]),
                           (''value'', JList [JNum 1000, JStr ''n/a''])],
                    JDict [(''metric'', JDict []),
                           (''value'', JList [JNum 1000, JStr ''0''])]])]"
        "[JDict [(''metric'', JDict [(''device'', JStr ''eth0'')]),
                           (''value'', JList [JNum 1000, JStr ''42.5''])],
                    JDict [(''metric'', JDict [(''device'', JStr ''eth1'')]),
                           (''value'', JList [JNum 1000, JStr ''n/a''])],
                    JDict [(''metric'', JDict []),
                           (''value'', JList [JNum 1000, JStr ''0''])]]"
        rt0]
  by (simp add: parse_item_def rt0_def dict_get_def)

subsection \<open>C4: the delta beside a value\<close>

text \<open>
  Claim C4, as amended. For every group shown (the rows of one device, or of one mount
  point), the delta is \<^verbatim>\<open>(latest / mean - 1) * 100\<close> when the mean of the group is not zero.
  When the mean is zero the division is carried out all the same, there being no guard
  for it: the delta is no finite number, and in particular it is not 0.
\<close>

theorem delta_pct_unguarded:
  "(\<forall>(dev, current_value, delta) \<in> set (device_metrics skip_loop df).
      (mean_value (filter (\<lambda>r. device r = dev) df) \<noteq> 0 \<longrightarrow>
         delta = Some ((current_value / mean_value (filter (\<lambda>r. device r = dev) df) - 1) * 100))
    \<and> (mean_value (filter (\<lambda>r. device r = dev) df) = 0 \<longrightarrow> delta = None))
 \<and> (\<forall>(mp, current_value, delta, colour) \<in> set (mount_details df mps).
      (mean_value (filter (\<lambda>r. mountpoint_of r = mp) df) \<noteq> 0 \<longrightarrow>
         delta = Some ((current_value / mean_value (filter (\<lambda>r. mountpoint_of r = mp) df) - 1) * 100))
    \<and> (mean_value (filter (\<lambda>r. mountpoint_of r = mp) df) = 0 \<longrightarrow> delta = None))"
proof (intro conjI ballI)
  fix e assume e: "e \<in> set (device_metrics skip_loop df)"
  obtain dev cur dl where eq: "e = (dev, cur, dl)" by (cases e) auto
  have "dl = delta_pct cur (filter (\<lambda>r. device r = dev) df)"
    using device_metrics_entry[of dev cur dl skip_loop df] e eq by simp
  then show "case e of (dev, current_value, delta) \<Rightarrow>
      (mean_value (filter (\<lambda>r. device r = dev) df) \<noteq> 0 \<longrightarrow>
         delta = Some ((current_value / mean_value (filter (\<lambda>r. device r = dev) df) - 1) * 100))
    \<and> (mean_value (filter (\<lambda>r. device r = dev) df) = 0 \<longrightarrow> delta = None)"
    by (simp only: eq prod.case delta_pct_cases) simp
next
  fix e assume e: "e \<in> set (mount_details df mps)"
  obtain mp cur dl col where eq: "e = (mp, cur, dl, col)" by (cases e) auto
  have "dl = delta_pct cur (filter (\<lambda>r. mountpoint_of r = mp) df)"
    using mount_details_entry[of mp cur dl col df mps] e eq by simp
  then show "case e of (mp, current_value, delta, colour) \<Rightarrow>
      (mean_value (filter (\<lambda>r. mountpoint_of r = mp) df) \<noteq> 0 \<longrightarrow>
         delta = Some ((current_value / mean_value (filter (\<lambda>r. mountpoint_of r = mp) df) - 1) * 100))
    \<and> (mean_value (filter (\<lambda>r. mountpoint_of r = mp) df) = 0 \<longrightarrow> delta = None)"
    by (simp only: eq prod.case delta_pct_cases) simp
qed

text \<open>The theorem on three rows: \<^verbatim>\<open>eth0\<close> with the values 10 and 90 (mean 50, delta 80) and
  \<^verbatim>\<open>eth1\<close> with the value 0 (mean 0, no delta).\<close>

theorem delta_pct_unguarded_witness:
  "(''eth0'', 90, Some 80) \<in> set (device_metrics False
      [\<lparr>timestamp = 1000, sample_value = 10, metric = [(''device'', JStr ''eth0'')], mode = ''unknown'', device = ''eth0''\<rparr>,
       \<lparr>timestamp = 1000, sample_value = 0, metric = [(''device'', JStr ''eth1'')], mode = ''unknown'', device = ''eth1''\<rparr>,
       \<lparr>timestamp = 1000, sample_value = 90, metric = [(''device'', JStr ''eth0'')], mode = ''unknown'', device = ''eth0''\<rparr>])
   \<and> (''eth1'', 0, None) \<in> set (device_metrics False
      [\<lparr>timestamp = 1000, sample_value = 10, metric = [(''device'', JStr ''eth0'')], mode = ''unknown'', device = ''eth0''\<rparr>,
       \<lparr>timestamp = 1000, sample_value = 0, metric = [(''device'', JStr ''eth1'')], mode = ''unknown'', device = ''eth1''\<rparr>,
       \<lparr>timestamp = 1000, sample_value = 90, metric = [(''device'', JStr ''eth0'')], mode = ''unknown'', device = ''eth0''\<rparr>])"
  using delta_pct_unguarded[of False
      "[\<lparr>timestamp = 1000, sample_value = 10, metric = [(''device'', JStr ''eth0'')], mode = ''unknown'', device = ''eth0''\<rparr>,
       \<lparr>timestamp = 1000, sample_value = 0, metric = [(''device'', JStr ''eth1'')], mode = ''unknown'', device = ''eth1''\<rparr>,
       \<lparr>timestamp = 1000, sample_value = 90, metric = [(''device'', JStr ''eth0'')], mode = ''unknown'', device = ''eth0''\<rparr>]"
      "[]"]
  by (simp add: device_metrics_def delta_pct_def float_div_def mean_value_def)

text \<open>Against the claim as stated: an idle interface, one row of value 0. The mean is 0 and
  the delta is not 0.\<close>

theorem delta_zero_mean_not_zero:
  "device_metrics False
     [\<lparr>timestamp = 1000, sample_value = 0, metric = [(''device'', JStr ''eth0'')],
       mode = ''unknown'', device = ''eth0''\<rparr>] = [(''eth0'', 0, None)]"
  by (simp add: device_metrics_def delta_pct_def float_div_def mean_value_def)

subsection \<open>C5: the critical threshold\<close>

text \<open>
  Claim C5, as amended. Only the storage expander classifies, and only against the fixed
  limit 85. It shows one bar for each mount point of the frame, in first-seen order, whose
  name is not empty and not \<^verbatim>\<open>/boot\<close>, and counts each in \<^verbatim>\<open>total_mounts\<close>. A mount point
  whose latest value is greater than 85 is critical: it is counted in \<^verbatim>\<open>critical_mounts\<close> and
  its bar has the critical colour. One whose latest value is below 85 is normal: it is not
  counted and its bar has the normal colour; this includes the values from 70 up to 85,
  there being no warning class. Nothing is said here of a latest value of exactly 85.
\<close>

theorem storage_classification:
  assumes "storage_summary df = Inr (Some st)"
  shows "map fst (bars st)
           = filter (\<lambda>mp. py_truthy mp \<and> mp \<noteq> JStr ''/boot'') (unique (map mountpoint_of df))
     \<and> total_mounts st = length (bars st)
     \<and> length (filter (\<lambda>(mp, current_value, colour). current_value > 85) (bars st))
           \<le> critical_mounts st
     \<and> critical_mounts st
           \<le> length (filter (\<lambda>(mp, current_value, colour). current_value \<ge> 85) (bars st))
     \<and> (\<forall>(mp, current_value, colour) \<in> set (bars st).
           current_value = sample_value (last (filter (\<lambda>r. mountpoint_of r = mp) df))
         \<and> (current_value > 85 \<longrightarrow> colour = ''#ff4b5c'')
         \<and> (current_value < 85 \<longrightarrow> colour = ''#4b6cb7''))"
proof -
  let ?shown = "mount_bars df (unique (map mountpoint_of df))"
  have st: "st = \<lparr>total_mounts = length ?shown,
      critical_mounts = length (filter (\<lambda>(mp, cur, colour). cur > 85) ?shown),
      bars = ?shown\<rparr>"
    using storage_summary_eq[OF assms] .
  have keys: "map fst ?shown
      = filter (\<lambda>mp. py_truthy mp \<and> mp \<noteq> JStr ''/boot'') (unique (map mountpoint_of df))"
    by (rule mount_bars_keys) (simp add: set_unique)
  have mono: "length (filter (\<lambda>(mp, cur, colour). cur > 85) bs)
      \<le> length (filter (\<lambda>(mp, cur, colour). cur \<ge> 85) bs)"
    for bs :: "(json \<times> real \<times> string) list"
    by (induction bs) auto
  have each: "\<forall>(mp, current_value, colour) \<in> set ?shown.
           current_value = sample_value (last (filter (\<lambda>r. mountpoint_of r = mp) df))
         \<and> (current_value > 85 \<longrightarrow> colour = ''#ff4b5c'')
         \<and> (current_value < 85 \<longrightarrow> colour = ''#4b6cb7'')"
    using mount_bars_entry[of _ _ _ df "unique (map mountpoint_of df)"] by fastforce
  show ?thesis
    unfolding st using keys mono[of ?shown] each by simp
qed

text \<open>The theorem on three mount points: \<^verbatim>\<open>/\<close> at 90, \<^verbatim>\<open>/boot\<close> at 99, which is not shown,
  and \<^verbatim>\<open>/home\<close> at 50.\<close>

theorem storage_classification_witness:
  "storage_summary
     [\<lparr>timestamp = 1000, sample_value = 90, metric = [(''mountpoint'', JStr ''/'')],
       mode = ''unknown'', device = ''unknown''\<rparr>,
      \<lparr>timestamp = 1000, sample_value = 99, metric = [(''mountpoint'', JStr ''/boot'')],
       mode = ''unknown'', device = ''unknown''\<rparr>,
      \<lparr>timestamp = 1000, sample_value = 50, metric = [(''mountpoint'', JStr ''/home'')],
       mode = ''unknown'', device = ''unknown''\<rparr>]
   = Inr (Some \<lparr>total_mounts = 2, critical_mounts = 1,
                 bars = [(JStr ''/'', 90, ''#ff4b5c''), (JStr ''/home'', 50, ''#4b6cb7'')]\<rparr>)
   \<and> map fst (bars \<lparr>total_mounts = 2, critical_mounts = 1,
                 bars = [(JStr ''/'', 90 :: real, ''#ff4b5c''), (JStr ''/home'', 50, ''#4b6cb7'')]\<rparr>)
      = [JStr ''/'', JStr ''/home'']"
proof -
  have h: "storage_summary
     [\<lparr>timestamp = 1000, sample_value = 90, metric = [(''mountpoint'', JStr ''/'')],
       mode = ''unknown'', device = ''unknown''\<rparr>,
      \<lparr>timestamp = 1000, sample_value = 99, metric = [(''mountpoint'', JStr ''/boot'')],
       mode = ''unknown'', device = ''unknown''\<rparr>,
      \<lparr>timestamp = 1000, sample_value = 50, metric = [(''mountpoint'', JStr ''/home'')],
       mode = ''unknown'', device = ''unknown''\<rparr>]
   = Inr (Some \<lparr>total_mounts = 2, critical_mounts = 1,
                 bars = [(JStr ''/'', 90, ''#ff4b5c''), (JStr ''/home'', 50, ''#4b6cb7'')]\<rparr>)"
    by (simp add: storage_summary_def pd_unique_def mountpoint_of_def dict_get_def)
  show ?thesis using h storage_classification[OF h] by simp
qed

text \<open>Against the claim as stated, which has a warning class from 70: a mount point at 75
  and one at 50 are classified alike, neither is counted and both are drawn normal.\<close>

theorem storage_no_warning_class:
  "storage_summary
     [\<lparr>timestamp = 1000, sample_value = 75, metric = [(''mountpoint'', JStr ''/'')],
       mode = ''unknown'', device = ''unknown''\<rparr>,
      \<lparr>timestamp = 1000, sample_value = 50, metric = [(''mountpoint'', JStr ''/home'')],
       mode = ''unknown'', device = ''unknown''\<rparr>]
   = Inr (Some \<lparr>total_mounts = 2, critical_mounts = 0,
                 bars = [(JStr ''/'', 75, ''#4b6cb7''), (JStr ''/home'', 50, ''#4b6cb7'')]\<rparr>)
   \<and> storage_details
     [\<lparr>timestamp = 1000, sample_value = 75, metric = [(''mountpoint'', JStr ''/'')],
       mode = ''unknown'', device = ''unknown''\<rparr>,
      \<lparr>timestamp = 1000, sample_value = 50, metric = [(''mountpoint'', JStr ''/home'')],
       mode = ''unknown'', device = ''unknown''\<rparr>]
   = Inr [(JStr ''/'', 75, Some 0, ''normal''), (JStr ''/home'', 50, Some 0, ''normal'')]"
  by (simp add: storage_summary_def storage_details_def mount_details_def pd_unique_def
      mountpoint_of_def dict_get_def delta_pct_def float_div_def mean_value_def)

subsection \<open>C6: rows without the grouping label\<close>

text \<open>
  Claim C6, as amended. A row of \<^verbatim>\<open>process_metric\<close> whose labels lack \<^verbatim>\<open>device\<close> has the
  device \<^verbatim>\<open>unknown\<close> and the per-device columns show a group of that name; one whose labels
  lack \<^verbatim>\<open>mode\<close> has the mode \<^verbatim>\<open>unknown\<close> and is in the group of that mode in the CPU-by-mode
  means. A row whose labels lack \<^verbatim>\<open>mountpoint\<close> gets the empty string as its key, which the
  storage expander skips: the row is in none of the groups shown, and no group
  \<^verbatim>\<open>unknown\<close> is made for it.
\<close>

theorem missing_label_groups:
  assumes "process_metric rt result = Inr (evs, df)" and "r \<in> set df"
  shows "(map_of (metric r) ''device'' = None \<longrightarrow>
            device r = ''unknown''
          \<and> (\<exists>current_value delta.
                (''unknown'', current_value, delta) \<in> set (device_metrics skip_loop df)))
       \<and> (map_of (metric r) ''mode'' = None \<longrightarrow>
            mode r = ''unknown'' \<and> cpu_by_mode df (timestamp r, ''unknown'') \<noteq> None)
       \<and> (map_of (metric r) ''mountpoint'' = None \<longrightarrow>
            mountpoint_of r = JStr []
          \<and> (\<forall>st. storage_summary df = Inr (Some st) \<longrightarrow>
                (\<forall>(mp, current_value, colour) \<in> set (bars st). mp \<noteq> mountpoint_of r)))"
proof -
  obtain item where item: "parse_item rt item = Inr r"
    using process_metric_rows[OF assms] by blast
  note f = parse_item_fields[OF item]
  have a: "device r = ''unknown''
          \<and> (\<exists>current_value delta.
                (''unknown'', current_value, delta) \<in> set (device_metrics skip_loop df))"
    if n: "map_of (metric r) ''device'' = None"
  proof -
    have d: "device r = ''unknown''" using f n by (simp add: dict_get_def)
    have "\<not> (skip_loop \<and> str_contains ''loop'' (device r))" unfolding d by simp
    from device_metrics_has_group[OF assms(2) this] show ?thesis using d by auto
  qed
  have b: "mode r = ''unknown'' \<and> cpu_by_mode df (timestamp r, ''unknown'') \<noteq> None"
    if n: "map_of (metric r) ''mode'' = None"
  proof -
    have m: "mode r = ''unknown''" using f n by (simp add: dict_get_def)
    have "filter (\<lambda>x. (timestamp x, mode x) = (timestamp r, ''unknown'')) df \<noteq> []"
      using assms(2) m by (auto simp: filter_empty_conv)
    then show ?thesis using m by (simp add: cpu_by_mode_def Let_def)
  qed
  have c: "mountpoint_of r = JStr []
          \<and> (\<forall>st. storage_summary df = Inr (Some st) \<longrightarrow>
                (\<forall>(mp, current_value, colour) \<in> set (bars st). mp \<noteq> mountpoint_of r))"
    if n: "map_of (metric r) ''mountpoint'' = None"
  proof -
    have mp: "mountpoint_of r = JStr []" using n by (simp add: mountpoint_of_def dict_get_def)
    have "\<forall>(mp, current_value, colour) \<in> set (bars st). mp \<noteq> mountpoint_of r"
      if s: "storage_summary df = Inr (Some st)" for st
    proof -
      obtain mps where st: "bars st = mount_bars df mps"
        using storage_summary_bars[OF s] by auto
      show ?thesis unfolding st mp
        using mount_bars_entry[of _ _ _ df mps] by fastforce
    qed
    then show ?thesis using mp by blast
  qed
  show ?thesis using a b c by blast
qed

text \<open>The theorem on the response \<^verbatim>\<open>[{metric: {}, value: [1000, "42.5"]}]\<close>: its one row has
  no label at all.\<close>

theorem missing_label_groups_witness:
  "process_metric rt0
     (JDict [(''status'', JStr ''success''),
             (''data'', JDict [(''resultType'', JStr ''vector''),
                               (''result'', JList [JDict [(''metric'', JDict []),
                                                          (''value'', JList [JNum 1000, JStr ''42.5''])]])])])
   = Inr ([], [\<lparr>timestamp = 1000, sample_value = 42.5, metric = [], mode = ''unknown'', device = ''unknown''\<rparr>])
   \<and> device \<lparr>timestamp = 1000, sample_value = 42.5, metric = [], mode = ''unknown'', device = ''unknown''\<rparr> = ''unknown''
   \<and> (\<exists>current_value delta. (''unknown'', current_value, delta) \<in> set (device_metrics True
         [\<lparr>timestamp = 1000, sample_value = 42.5, metric = [], mode = ''unknown'', device = ''unknown''\<rparr>]))
   \<and> cpu_by_mode
         [\<lparr>timestamp = 1000, sample_value = 42.5, metric = [], mode = ''unknown'', device = ''unknown''\<rparr>]
         (1000, ''unknown'') \<noteq> None
   \<and> mountpoint_of \<lparr>timestamp = 1000, sample_value = 42.5, metric = [], mode = ''unknown'', device = ''unknown''\<rparr> = JStr []"
proof -
  have h: "process_metric rt0
     (JDict [(''status'', JStr ''success''),
             (''data'', JDict [(''resultType'', JStr ''vector''),
                               (''result'', JList [JDict [(''metric'', JDict []),
                                                          (''value'', JList [JNum 1000, JStr ''42.5''])]])])])
   = Inr ([], [\<lparr>timestamp = 1000, sample_value = 42.5, metric = [], mode = ''unknown'', device = ''unknown''\<rparr>])"
    by (simp add: process_metric_def parse_item_def rt0_def dict_get_def)
  have m: "\<lparr>timestamp = 1000, sample_value = 42.5, metric = [], mode = ''unknown'', device = ''unknown''\<rparr>
     \<in> set [\<lparr>timestamp = 1000, sample_value = 42.5, metric = [], mode = ''unknown'', device = ''unknown''\<rparr>]"
    by simp
  show ?thesis using h missing_label_groups[OF h m, of True] by simp
qed

text \<open>Against the claim as stated: the same row in the storage expander. No mount point is
  shown, the row is dropped.\<close>

theorem missing_mountpoint_dropped:
  "process_metric rt0
     (JDict [(''status'', JStr ''success''),
             (''data'', JDict [(''resultType'', JStr ''vector''),
                               (''result'', JList [JDict [(''metric'', JDict []),
                                                          (''value'', JList [JNum 1000, JStr ''42.5''])]])])])
   = Inr ([], [\<lparr>timestamp = 1000, sample_value = 42.5, metric = [], mode = ''unknown'', device = ''unknown''\<rparr>])
  \<and> storage_summary
     [\<lparr>timestamp = 1000, sample_value = 42.5, metric = [], mode = ''unknown'', device = ''unknown''\<rparr>]
   = Inr (Some \<lparr>total_mounts = 0, critical_mounts = 0, bars = []\<rparr>)"
  by (simp add: process_metric_def parse_item_def rt0_def storage_summary_def pd_unique_def
      mountpoint_of_def dict_get_def)

subsection \<open>C7: a failed query does not stop the cycle or the loop\<close>




subsection \<open>C8: the latest value of a group\<close>

text \<open>
  Claim C8, as amended. For every group shown (the rows of one device or of one mount
  point, and a whole frame for the gauges) the latest value is the value of the last row
  of the group in input order; timestamps are not compared. It is the value of the record
  with the greatest timestamp, the last seen among equals, whenever no row of the group is
  more recent than the last one, as with an instant query, whose rows share one timestamp.
\<close>

theorem latest_is_last_row:
  "(\<forall>(dev, current_value, delta) \<in> set (device_metrics skip_loop df).
       current_value = sample_value (last (filter (\<lambda>r. device r = dev) df))
     \<and> ((\<forall>r \<in> set (filter (\<lambda>r. device r = dev) df).
            timestamp r \<le> timestamp (last (filter (\<lambda>r. device r = dev) df)))
        \<longrightarrow> latest_by_timestamp (filter (\<lambda>r. device r = dev) df) = Some current_value))
 \<and> (\<forall>(mp, current_value, delta, colour) \<in> set (mount_details df mps).
       current_value = sample_value (last (filter (\<lambda>r. mountpoint_of r = mp) df))
     \<and> ((\<forall>r \<in> set (filter (\<lambda>r. mountpoint_of r = mp) df).
            timestamp r \<le> timestamp (last (filter (\<lambda>r. mountpoint_of r = mp) df)))
        \<longrightarrow> latest_by_timestamp (filter (\<lambda>r. mountpoint_of r = mp) df) = Some current_value))
 \<and> (df \<noteq> [] \<longrightarrow>
       kpi_current df = Some (sample_value (last df))
     \<and> ((\<forall>r \<in> set df. timestamp r \<le> timestamp (last df))
          \<longrightarrow> latest_by_timestamp df = kpi_current df))"
proof (intro conjI ballI impI)
  fix e assume e: "e \<in> set (device_metrics skip_loop df)"
  obtain dev cur dl where eq: "e = (dev, cur, dl)" by (cases e) auto
  have g: "filter (\<lambda>r. device r = dev) df \<noteq> []"
    and c: "cur = sample_value (last (filter (\<lambda>r. device r = dev) df))"
    using device_metrics_entry[of dev cur dl skip_loop df] e eq by simp_all
  show "case e of (dev, current_value, delta) \<Rightarrow>
       current_value = sample_value (last (filter (\<lambda>r. device r = dev) df))
     \<and> ((\<forall>r \<in> set (filter (\<lambda>r. device r = dev) df).
            timestamp r \<le> timestamp (last (filter (\<lambda>r. device r = dev) df)))
        \<longrightarrow> latest_by_timestamp (filter (\<lambda>r. device r = dev) df) = Some current_value)"
    unfolding eq prod.case using c latest_by_timestamp_last[OF g] by blast
next
  fix e assume e: "e \<in> set (mount_details df mps)"
  obtain mp cur dl col where eq: "e = (mp, cur, dl, col)" by (cases e) auto
  have g: "filter (\<lambda>r. mountpoint_of r = mp) df \<noteq> []"
    and c: "cur = sample_value (last (filter (\<lambda>r. mountpoint_of r = mp) df))"
    using mount_details_entry[of mp cur dl col df mps] e eq by simp_all
  show "case e of (mp, current_value, delta, colour) \<Rightarrow>
       current_value = sample_value (last (filter (\<lambda>r. mountpoint_of r = mp) df))
     \<and> ((\<forall>r \<in> set (filter (\<lambda>r. mountpoint_of r = mp) df).
            timestamp r \<le> timestamp (last (filter (\<lambda>r. mountpoint_of r = mp) df)))
        \<longrightarrow> latest_by_timestamp (filter (\<lambda>r. mountpoint_of r = mp) df) = Some current_value)"
    unfolding eq prod.case using c latest_by_timestamp_last[OF g] by blast
next
  assume "df \<noteq> []"
  then show "kpi_current df = Some (sample_value (last df))" by (simp add: kpi_current_def)
next
  assume "df \<noteq> []" and "\<forall>r \<in> set df. timestamp r \<le> timestamp (last df)"
  then show "latest_by_timestamp df = kpi_current df"
    by (simp add: kpi_current_def latest_by_timestamp_last)
qed

text \<open>The theorem on two rows of one device with the same timestamp: the latest value is
  that of the second row, and it is the one the specification's words pick.\<close>

theorem latest_is_last_row_witness:
  "(''eth0'', 20, Some (100 / 3)) \<in> set (device_metrics False
     [\<lparr>timestamp = 1000, sample_value = 10, metric = [(''device'', JStr ''eth0'')], mode = ''unknown'', device = ''eth0''\<rparr>,
      \<lparr>timestamp = 1000, sample_value = 20, metric = [(''device'', JStr ''eth0'')], mode = ''unknown'', device = ''eth0''\<rparr>])
   \<and> latest_by_timestamp
     [\<lparr>timestamp = 1000, sample_value = 10, metric = [(''device'', JStr ''eth0'')], mode = ''unknown'', device = ''eth0''\<rparr>,
      \<lparr>timestamp = 1000, sample_value = 20, metric = [(''device'', JStr ''eth0'')], mode = ''unknown'', device = ''eth0''\<rparr>]
     = Some 20
   \<and> kpi_current
     [\<lparr>timestamp = 1000, sample_value = 10, metric = [(''device'', JStr ''eth0'')], mode = ''unknown'', device = ''eth0''\<rparr>,
      \<lparr>timestamp = 1000, sample_value = 20, metric = [(''device'', JStr ''eth0'')], mode = ''unknown'', device = ''eth0''\<rparr>]
     = Some 20"
  using latest_is_last_row[of False
     "[\<lparr>timestamp = 1000, sample_value = 10, metric = [(''device'', JStr ''eth0'')], mode = ''unknown'', device = ''eth0''\<rparr>,
      \<lparr>timestamp = 1000, sample_value = 20, metric = [(''device'', JStr ''eth0'')], mode = ''unknown'', device = ''eth0''\<rparr>]"
     "[]"]
  by (simp add: device_metrics_def delta_pct_def float_div_def mean_value_def
      latest_by_timestamp_def kpi_current_def)

text \<open>Against the claim as stated: two rows of one device, the more recent one first. The
  value shown is that of the last row, 2; the record with the greatest timestamp has the
  value 1.\<close>

theorem latest_not_max_timestamp:
  "device_metrics False
     [\<lparr>timestamp = 2000, sample_value = 1, metric = [(''device'', JStr ''eth0'')], mode = ''unknown'', device = ''eth0''\<rparr>,
      \<lparr>timestamp = 1000, sample_value = 2, metric = [(''device'', JStr ''eth0'')], mode = ''unknown'', device = ''eth0''\<rparr>]
    = [(''eth0'', 2, Some (100 / 3))]
  \<and> latest_by_timestamp
     [\<lparr>timestamp = 2000, sample_value = 1, metric = [(''device'', JStr ''eth0'')], mode = ''unknown'', device = ''eth0''\<rparr>,
      \<lparr>timestamp = 1000, sample_value = 2, metric = [(''device'', JStr ''eth0'')], mode = ''unknown'', device = ''eth0''\<rparr>]
    = Some 1"
  by (simp add: device_metrics_def delta_pct_def float_div_def mean_value_def latest_by_timestamp_def)

subsection \<open>C9: the loop with auto-refresh off\<close>

text \<open>
  Claim C9 says that no cycle runs while auto-refresh is off. In \<^verbatim>\<open>main\<close> the setting only
  chooses the sleep at the end of an iteration, \<^verbatim>\<open>refresh_rate\<close> seconds or 1 second: with
  auto-refresh off every iteration still fetches the whole catalog. Against a backend
  that cannot be reached, \<open>n\<close> iterations show \<open>n\<close> data sets, send 40 requests each (four
  attempts for each of the ten queries) and sleep 1 second after each.
\<close>

theorem paused_loop_keeps_fetching:
  "\<exists>evs shown. main_loop rt (\<lambda>i q n. ConnectionFailed) False refresh_rate i n = Inr (evs, shown)
     \<and> length shown = n
     \<and> length (filter is_request evs) = 40 * n
     \<and> length (filter (\<lambda>e. e = Sleep 1) evs) = n"
proof (induction n arbitrary: i)
  case 0
  then show ?case by simp
next
  case (Suc n)
  obtain evs where f: "fetch_metrics rt (\<lambda>q n. ConnectionFailed)
        = Inr (evs, map (\<lambda>(name, q). (name, [])) METRICS)"
    and r: "length (filter is_request evs) = 40" and s: "filter (\<lambda>e. e = Sleep 1) evs = []"
    using fetch_loop_all_failed[of rt METRICS] by (auto simp: fetch_metrics_def length_METRICS)
  obtain drawn where d: "display_metrics (map (\<lambda>(name, q). (name, [])) METRICS) = Inr drawn"
    using display_all_empty[of METRICS] by blast
  obtain evs' shown where l: "main_loop rt (\<lambda>i q n. ConnectionFailed) False refresh_rate (Suc i) n
        = Inr (evs', shown)"
    and len: "length shown = n" and r': "length (filter is_request evs') = 40 * n"
    and s': "length (filter (\<lambda>e. e = Sleep 1) evs') = n"
    using Suc.IH[of "Suc i"] by blast
  show ?case by (simp add: f d l len r r' s s')
qed

subsection \<open>C10: the keys of the fetched mapping\<close>

text \<open>
  Claim C10 says that \<^verbatim>\<open>fetch_metrics\<close> returns one entry per catalog metric whatever the
  backend does. Whenever it returns it does (\<open>fetch_loop_keys\<close>), but it does not always
  return: \<^verbatim>\<open>process_metric\<close> is called outside any \<^verbatim>\<open>try\<close>, so the response of claim C2,
  whose \<^verbatim>\<open>data\<close> has no \<^verbatim>\<open>result\<close>, makes \<^verbatim>\<open>fetch_metrics\<close> raise \<^verbatim>\<open>KeyError\<close> at the first
  query and return no mapping.
\<close>

theorem fetch_metrics_malformed_raises:
  "fetch_metrics rt
     (\<lambda>q n. Responded 200 (Some (JDict [(''status'', JStr ''success''), (''data'', JDict [])])))
     = Inl KeyError"
  by (simp add: fetch_metrics_def METRICS_def query_def prom_client_def eval_nat_numeral
      process_metric_def)

end
